theory Spec2Isabelle
  imports Complex_Main "HOL-Library.Sublist"
begin

section \<open>Python strings\<close>

text \<open>
  A Python \<open>str\<close> is modelled as a \<open>string\<close> whose characters are the code points
  0 to 255; code points above 255 (among them the bullet U+2022 of the list patterns) are
  outside the model. The character classes are those of \<open>str.isspace\<close>, of the regular
  expression classes \<open>\s\<close>, \<open>\d\<close>, \<open>\w\<close> on \<open>str\<close> patterns, and of \<open>str.lower\<close>,
  restricted to that range.
\<close>

definition is_space :: "char \<Rightarrow> bool" where
  "is_space c =
     (let n = (of_char c :: nat)
      in (9 \<le> n \<and> n \<le> 13) \<or> (28 \<le> n \<and> n \<le> 32) \<or> n = 133 \<or> n = 160)"

definition is_digit :: "char \<Rightarrow> bool" where
  "is_digit c = (let n = (of_char c :: nat) in 48 \<le> n \<and> n \<le> 57)"

definition digit_val :: "char \<Rightarrow> nat" where
  "digit_val c = of_char c - 48"

definition is_word :: "char \<Rightarrow> bool" where
  "is_word c =
     (let n = (of_char c :: nat)
      in (48 \<le> n \<and> n \<le> 57) \<or> (65 \<le> n \<and> n \<le> 90) \<or> n = 95 \<or> (97 \<le> n \<and> n \<le> 122)
         \<or> n = 170 \<or> n = 178 \<or> n = 179 \<or> n = 181 \<or> n = 185 \<or> n = 186
         \<or> (188 \<le> n \<and> n \<le> 190) \<or> (192 \<le> n \<and> n \<le> 214)
         \<or> (216 \<le> n \<and> n \<le> 246) \<or> (248 \<le> n \<and> n \<le> 255))"

definition lower_char :: "char \<Rightarrow> char" where
  "lower_char c =
     (let n = (of_char c :: nat)
      in if (65 \<le> n \<and> n \<le> 90) \<or> (192 \<le> n \<and> n \<le> 214) \<or> (216 \<le> n \<and> n \<le> 222)
         then char_of (n + 32) else c)"

text \<open>\<open>s.lower()\<close>\<close>

definition lower :: "string \<Rightarrow> string" where
  "lower s = map lower_char s"

text \<open>\<open>s.strip()\<close>\<close>

definition strip :: "string \<Rightarrow> string" where
  "strip s = rev (dropWhile is_space (rev (dropWhile is_space s)))"

text \<open>\<open>s.replace(c, '')\<close> for a one-character \<open>c\<close>\<close>

definition remove_char :: "char \<Rightarrow> string \<Rightarrow> string" where
  "remove_char c s = filter (\<lambda>d. d \<noteq> c) s"

text \<open>\<open>sub in s\<close>\<close>

fun contains :: "string \<Rightarrow> string \<Rightarrow> bool" where
  "contains sub [] = (sub = [])"
| "contains sub (c # cs) = (prefix sub (c # cs) \<or> contains sub cs)"

section \<open>Python floats\<close>

text \<open>
  A Python \<open>float\<close> is a finite number, an infinity or NaN. Finite arithmetic is exact
  here: rounding to a double and overflow to an infinity are not modelled. Comparisons
  with NaN are false, as in IEEE 754.
\<close>

datatype pyfloat = Fin real | PInf | NInf | NaN

fun fle :: "pyfloat \<Rightarrow> pyfloat \<Rightarrow> bool" where
  "fle NaN _ = False"
| "fle _ NaN = False"
| "fle NInf _ = True"
| "fle _ PInf = True"
| "fle (Fin x) (Fin y) = (x \<le> y)"
| "fle _ _ = False"

fun flt :: "pyfloat \<Rightarrow> pyfloat \<Rightarrow> bool" where
  "flt NaN _ = False"
| "flt _ NaN = False"
| "flt PInf _ = False"
| "flt _ NInf = False"
| "flt (Fin x) (Fin y) = (x < y)"
| "flt _ _ = True"

definition fge :: "pyfloat \<Rightarrow> pyfloat \<Rightarrow> bool" where
  "fge a b = fle b a"

definition fgt :: "pyfloat \<Rightarrow> pyfloat \<Rightarrow> bool" where
  "fgt a b = flt b a"

fun fneg :: "pyfloat \<Rightarrow> pyfloat" where
  "fneg (Fin x) = Fin (- x)"
| "fneg PInf = NInf"
| "fneg NInf = PInf"
| "fneg NaN = NaN"

fun fabs :: "pyfloat \<Rightarrow> pyfloat" where
  "fabs (Fin x) = Fin \<bar>x\<bar>"
| "fabs PInf = PInf"
| "fabs NInf = PInf"
| "fabs NaN = NaN"

fun fadd :: "pyfloat \<Rightarrow> pyfloat \<Rightarrow> pyfloat" where
  "fadd NaN _ = NaN"
| "fadd _ NaN = NaN"
| "fadd (Fin x) (Fin y) = Fin (x + y)"
| "fadd PInf NInf = NaN"
| "fadd NInf PInf = NaN"
| "fadd PInf _ = PInf"
| "fadd _ PInf = PInf"
| "fadd NInf _ = NInf"
| "fadd _ NInf = NInf"

definition fsub :: "pyfloat \<Rightarrow> pyfloat \<Rightarrow> pyfloat" where
  "fsub a b = fadd a (fneg b)"

text \<open>The sign of a float that is not NaN: \<open>-1\<close>, \<open>0\<close> or \<open>1\<close>.\<close>

fun fsgn :: "pyfloat \<Rightarrow> int" where
  "fsgn (Fin x) = (if x < 0 then - 1 else if x = 0 then 0 else 1)"
| "fsgn PInf = 1"
| "fsgn NInf = - 1"
| "fsgn NaN = 0"

fun fmul :: "pyfloat \<Rightarrow> pyfloat \<Rightarrow> pyfloat" where
  "fmul NaN _ = NaN"
| "fmul _ NaN = NaN"
| "fmul (Fin x) (Fin y) = Fin (x * y)"
| "fmul a b =
     (if fsgn a * fsgn b = 0 then NaN else if fsgn a * fsgn b < 0 then NInf else PInf)"

text \<open>\<open>max(a, b)\<close> keeps its first argument unless the second is greater.\<close>

definition fmax :: "pyfloat \<Rightarrow> pyfloat \<Rightarrow> pyfloat" where
  "fmax a b = (if fgt b a then b else a)"

section \<open>Exceptions and values\<close>

text \<open>
  A value of an answer range or of the tolerance argument: \<open>None\<close>, a string, or a number.
  Python's \<open>int\<close> and \<open>float\<close> are both \<open>PNum\<close>; an \<open>int\<close> beyond the range of a
  float is outside the model.
\<close>

datatype pyval = PNone | PStr string | PNum pyfloat

text \<open>
  The exceptions the grading code meets. \<open>ValueError s\<close> is raised by \<open>float(s)\<close> on a
  text that is not a number, \<open>TypeError v\<close> by an operation that does not accept the
  value \<open>v\<close>, \<open>OtherException\<close> stands for any other subclass of \<open>Exception\<close>.
\<close>

datatype exn = ValueError string | TypeError pyval | ZeroDivisionError | OtherException string

text \<open>True division of floats; Python raises on a zero divisor.\<close>

definition fdiv :: "pyfloat \<Rightarrow> pyfloat \<Rightarrow> exn + pyfloat" where
  "fdiv a b =
     (case b of
        Fin y \<Rightarrow>
          if y = 0 then Inl ZeroDivisionError
          else (case a of
                  Fin x \<Rightarrow> Inr (Fin (x / y))
                | NaN \<Rightarrow> Inr NaN
                | _ \<Rightarrow> Inr (if fsgn a * fsgn b < 0 then NInf else PInf))
      | NaN \<Rightarrow> Inr NaN
      | _ \<Rightarrow> (case a of Fin x \<Rightarrow> Inr (Fin 0) | _ \<Rightarrow> Inr NaN))"

text \<open>Sequencing of computations that may raise: the first exception wins.\<close>

definition bind_exn :: "exn + 'a \<Rightarrow> ('a \<Rightarrow> exn + 'b) \<Rightarrow> exn + 'b" where
  "bind_exn m f = (case m of Inl e \<Rightarrow> Inl e | Inr x \<Rightarrow> f x)"

subsection \<open>The built-in \<open>float\<close> on a string\<close>

text \<open>
  \<open>float(s)\<close> strips surrounding whitespace and accepts an optional sign followed by
  \<open>inf\<close>, \<open>infinity\<close> or \<open>nan\<close> in any case, or by a decimal number
  \<open>[digits] . digits | digits [.]\<close> with an optional exponent, where digits may be
  grouped by single underscores. Anything else raises \<open>ValueError\<close>.
\<close>

fun more_digits :: "string \<Rightarrow> nat list \<times> string" where
  "more_digits [] = ([], [])"
| "more_digits [c] = (if is_digit c then ([digit_val c], []) else ([], [c]))"
| "more_digits (c # d # cs) =
     (if is_digit c then (digit_val c # fst (more_digits (d # cs)), snd (more_digits (d # cs)))
      else if c = CHR ''_'' \<and> is_digit d then (digit_val d # fst (more_digits cs), snd (more_digits cs))
      else ([], c # d # cs))"

definition digitpart :: "string \<Rightarrow> (nat list \<times> string) option" where
  "digitpart s =
     (case s of
        [] \<Rightarrow> None
      | c # cs \<Rightarrow>
          if is_digit c then Some (digit_val c # fst (more_digits cs), snd (more_digits cs))
          else None)"

text \<open>The integer digits, the fraction digits and the rest of the text.\<close>

definition number_part :: "string \<Rightarrow> (nat list \<times> nat list \<times> string) option" where
  "number_part s =
     (case digitpart s of
        Some (ip, r) \<Rightarrow>
          (case r of
             [] \<Rightarrow> Some (ip, [], r)
           | c # r' \<Rightarrow>
               if c = CHR ''.'' then
                 (case digitpart r' of
                    Some (fp, r'') \<Rightarrow> Some (ip, fp, r'')
                  | None \<Rightarrow> Some (ip, [], r'))
               else Some (ip, [], r))
      | None \<Rightarrow>
          (case s of
             [] \<Rightarrow> None
           | c # r \<Rightarrow>
               if c = CHR ''.'' then
                 (case digitpart r of Some (fp, r') \<Rightarrow> Some ([], fp, r') | None \<Rightarrow> None)
               else None))"

text \<open>An optional sign: \<open>True\<close> for minus.\<close>

definition sign_part :: "string \<Rightarrow> bool \<times> string" where
  "sign_part s =
     (case s of
        [] \<Rightarrow> (False, s)
      | c # r \<Rightarrow> if c = CHR ''-'' then (True, r) else if c = CHR ''+'' then (False, r) else (False, s))"

text \<open>The exponent: the text must end with it.\<close>

definition exponent_part :: "string \<Rightarrow> int option" where
  "exponent_part s =
     (case s of
        [] \<Rightarrow> Some 0
      | c # r \<Rightarrow>
          if c = CHR ''e'' \<or> c = CHR ''E'' then
            (case digitpart (snd (sign_part r)) of
               Some (ds, []) \<Rightarrow>
                 Some (if fst (sign_part r) then - int (foldl (\<lambda>a d. 10 * a + d) 0 ds)
                       else int (foldl (\<lambda>a d. 10 * a + d) 0 ds))
             | _ \<Rightarrow> None)
          else None)"

definition scale10 :: "real \<Rightarrow> int \<Rightarrow> real" where
  "scale10 m k = (if 0 \<le> k then m * 10 ^ nat k else m / 10 ^ nat (- k))"

text \<open>The whitespace \<open>float\<close> strips: that of \<open>str.isspace\<close> without the codes 28 to 31.\<close>

definition is_float_space :: "char \<Rightarrow> bool" where
  "is_float_space c =
     (let n = (of_char c :: nat) in (9 \<le> n \<and> n \<le> 13) \<or> n = 32 \<or> n = 133 \<or> n = 160)"

definition float_strip :: "string \<Rightarrow> string" where
  "float_strip s = rev (dropWhile is_float_space (rev (dropWhile is_float_space s)))"

definition py_float :: "string \<Rightarrow> pyfloat option" where
  "py_float s =
     (let (neg, r) = sign_part (float_strip s);
          sgn = (\<lambda>x. if neg then fneg x else x)
      in if lower r = ''inf'' \<or> lower r = ''infinity'' then Some (sgn PInf)
         else if lower r = ''nan'' then Some NaN
         else (case number_part r of
                 None \<Rightarrow> None
               | Some (ip, fp, r') \<Rightarrow>
                   (case exponent_part r' of
                      None \<Rightarrow> None
                    | Some e \<Rightarrow>
                        Some (sgn (Fin (scale10 (real (foldl (\<lambda>a d. 10 * a + d) 0 (ip @ fp)))
                                          (e - int (length fp))))))))"

definition float_str :: "string \<Rightarrow> exn + pyfloat" where
  "float_str s = (case py_float s of Some x \<Rightarrow> Inr x | None \<Rightarrow> Inl (ValueError s))"

text \<open>\<open>float(v)\<close> on a value.\<close>

definition float_val :: "pyval \<Rightarrow> exn + pyfloat" where
  "float_val v =
     (case v of PNum x \<Rightarrow> Inr x | PStr s \<Rightarrow> float_str s | PNone \<Rightarrow> Inl (TypeError PNone))"

text \<open>\<open>v > 0\<close> and \<open>v / 100\<close> on a value: only numbers support them.\<close>

definition val_gt_zero :: "pyval \<Rightarrow> exn + bool" where
  "val_gt_zero v = (case v of PNum x \<Rightarrow> Inr (fgt x (Fin 0)) | _ \<Rightarrow> Inl (TypeError v))"

definition val_div_100 :: "pyval \<Rightarrow> exn + pyfloat" where
  "val_div_100 v = (case v of PNum x \<Rightarrow> fdiv x (Fin 100) | _ \<Rightarrow> Inl (TypeError v))"

subsection \<open>Dictionaries\<close>

text \<open>A dictionary with string keys, as the list of its items; it is true when not empty.\<close>

type_synonym pydict = "(string \<times> pyval) list"

definition dict_get :: "pydict \<Rightarrow> string \<Rightarrow> pyval \<Rightarrow> pyval" where
  "dict_get d k dflt = (case map_of d k of Some v \<Rightarrow> v | None \<Rightarrow> dflt)"

section \<open>Grading results\<close>

text \<open>
  An explanation is a formatted string: its literal pieces and the values formatted into
  it. The text of a formatted float or exception is not modelled.
\<close>

datatype fmt =
    Lit string
  | FStr string
  | FNat nat
  | FFloat pyfloat
  | FFixed nat pyfloat
  | FVal pyval
  | FExn exn

record GradingResult =
  is_correct :: bool
  score_percentage :: pyfloat
  explanation :: "fmt list"

record NumericalResult = GradingResult +
  difference :: "pyfloat option"

record GradingSimulator =
  ollama_host :: "string option"

text \<open>The constructor; \<open>GradingSimulator()\<close> is \<open>new_simulator None\<close>.\<close>

definition new_simulator :: "string option \<Rightarrow> GradingSimulator" where
  "new_simulator host = \<lparr>ollama_host = host\<rparr>"

section \<open>One-word answers\<close>

definition grade_one_word :: "GradingSimulator \<Rightarrow> string \<Rightarrow> string \<Rightarrow> bool \<Rightarrow> GradingResult" where
  "grade_one_word self student_answer correct_answer case_sensitive =
     (if student_answer = [] \<or> correct_answer = [] then
        \<lparr>is_correct = False, score_percentage = Fin 0, explanation = [Lit ''Missing answer'']\<rparr>
      else
        let student_ans = strip student_answer;
            correct_ans = strip correct_answer;
            student_ans = (if \<not> case_sensitive then lower student_ans else student_ans);
            correct_ans = (if \<not> case_sensitive then lower correct_ans else correct_ans);
            correct = (student_ans = correct_ans)
        in \<lparr>is_correct = correct,
            score_percentage = (if correct then Fin 100 else Fin 0),
            explanation = [Lit (if correct then ''Exact match'' else ''Not an exact match'')]\<rparr>)"

section \<open>Numerical answers\<close>

text \<open>
  The answers are given by their \<open>str()\<close> text. \<open>answer_range\<close> is \<open>None\<close> or a
  dictionary; \<open>tolerance_percent\<close> is any value.
\<close>

text \<open>The bounds and the tolerance of range-based checking.\<close>

definition resolve_range ::
  "pydict option \<Rightarrow> pyval \<Rightarrow> exn + (pyfloat \<times> pyfloat \<times> pyval)" where
  "resolve_range answer_range tolerance_percent =
     (case answer_range of
        None \<Rightarrow> Inr (NInf, PInf, tolerance_percent)
      | Some d \<Rightarrow>
          if d \<noteq> [] then
            bind_exn (float_val (dict_get d ''min'' (PNum NInf))) (\<lambda>min_val.
            bind_exn (float_val (dict_get d ''max'' (PNum PInf))) (\<lambda>max_val.
            Inr (min_val, max_val, dict_get d ''tolerance_percent'' tolerance_percent)))
          else Inr (NInf, PInf, tolerance_percent))"

definition outside_result :: "pyfloat \<Rightarrow> pyfloat \<Rightarrow> NumericalResult" where
  "outside_result student_value diff =
     \<lparr>is_correct = False, score_percentage = Fin 0,
      explanation = [Lit ''Value '', FFloat student_value, Lit '' outside acceptable range/tolerance''],
      difference = Some diff\<rparr>"

text \<open>The cleaning of an answer: \<open>str(answer).replace(',', '').replace(' ', '')\<close>\<close>

definition cleaned :: "string \<Rightarrow> string" where
  "cleaned answer = remove_char CHR '' '' (remove_char CHR '','' answer)"

text \<open>The body of the \<open>try\<close> statement.\<close>

definition grade_numerical_try ::
  "string \<Rightarrow> string \<Rightarrow> bool \<Rightarrow> pyval \<Rightarrow> pydict option \<Rightarrow> exn + NumericalResult" where
  "grade_numerical_try student_answer correct_answer range_sensitive tolerance_percent answer_range =
     (let student_str = cleaned student_answer;
          correct_str = cleaned correct_answer
      in if student_str = correct_str then
           Inr \<lparr>is_correct = True, score_percentage = Fin 100,
                explanation = [Lit ''Exact match: '', FStr student_str],
                difference = Some (Fin 0)\<rparr>
         else
           bind_exn (float_str student_str) (\<lambda>student_value.
           bind_exn (float_str correct_str) (\<lambda>correct_value.
           let diff = fabs (fsub student_value correct_value)
           in if range_sensitive then
                bind_exn (resolve_range answer_range tolerance_percent) (\<lambda>(min_val, max_val, tolerance).
                if fle min_val student_value \<and> fle student_value max_val then
                  Inr \<lparr>is_correct = True, score_percentage = Fin 100,
                       explanation = [Lit ''Value '', FFloat student_value, Lit '' is within range ['',
                                      FFloat min_val, Lit '', '', FFloat max_val, Lit '']''],
                       difference = Some diff\<rparr>
                else
                  bind_exn (val_gt_zero tolerance) (\<lambda>positive.
                  if positive then
                    bind_exn (val_div_100 tolerance) (\<lambda>fraction.
                    let tolerance_amount = fmul correct_value fraction;
                        lower_bound = fsub correct_value tolerance_amount;
                        upper_bound = fadd correct_value tolerance_amount
                    in if fle lower_bound student_value \<and> fle student_value upper_bound then
                         Inr \<lparr>is_correct = True, score_percentage = Fin 100,
                              explanation = [Lit ''Within '', FVal tolerance, Lit ''% tolerance of '',
                                             FFloat correct_value],
                              difference = Some diff\<rparr>
                       else Inr (outside_result student_value diff))
                  else Inr (outside_result student_value diff)))
              else
                let epsilon = fmax (Fin (1 / 10000)) (fmul (fabs correct_value) (Fin (1 / 1000000000)))
                in if fle diff epsilon then
                     Inr \<lparr>is_correct = True, score_percentage = Fin 100,
                          explanation = [Lit ''Exact numerical match: '', FFloat student_value],
                          difference = Some diff\<rparr>
                   else
                     Inr \<lparr>is_correct = False, score_percentage = Fin 0,
                          explanation = [Lit ''Expected '', FFloat correct_value, Lit '', got '',
                                         FFloat student_value, Lit '' (diff: '', FFloat diff, Lit '')''],
                          difference = Some diff\<rparr>)))"

text \<open>The handler: \<open>except (ValueError, TypeError) as e\<close>; any other exception propagates.\<close>

definition invalid_format :: "exn \<Rightarrow> NumericalResult" where
  "invalid_format e =
     \<lparr>is_correct = False, score_percentage = Fin 0,
      explanation = [Lit ''Invalid numerical format: '', FExn e],
      difference = None\<rparr>"

definition grade_numerical ::
  "GradingSimulator \<Rightarrow> string \<Rightarrow> string \<Rightarrow> bool \<Rightarrow> pyval \<Rightarrow> pydict option \<Rightarrow> exn + NumericalResult" where
  "grade_numerical self student_answer correct_answer range_sensitive tolerance_percent answer_range =
     (case grade_numerical_try student_answer correct_answer range_sensitive tolerance_percent answer_range of
        Inr r \<Rightarrow> Inr r
      | Inl (ValueError s) \<Rightarrow> Inr (invalid_format (ValueError s))
      | Inl (TypeError v) \<Rightarrow> Inr (invalid_format (TypeError v))
      | Inl e \<Rightarrow> Inl e)"

section \<open>List answers\<close>

subsection \<open>Tokens of a list written as one string\<close>

text \<open>The markers \<open>[-*]\<close> of a bulleted line.\<close>

definition is_bullet :: "char \<Rightarrow> bool" where
  "is_bullet c = (c = CHR ''-'' \<or> c = CHR ''*'')"

definition is_delim :: "char \<Rightarrow> bool" where
  "is_delim c = (c = CHR '','' \<or> c = CHR '';'' \<or> c = CHR 0x09 \<or> c = CHR 0x0A)"

text \<open>
  The text after a list marker \<open>(?:[-*]|\d+\.)\<close> at the start of the argument, if there
  is one. A bullet is no digit, so at most one alternative applies.
\<close>

definition marker_rest :: "string \<Rightarrow> string option" where
  "marker_rest r =
     (case r of
        [] \<Rightarrow> None
      | b # a \<Rightarrow>
          if is_bullet b then Some a
          else if takeWhile is_digit r \<noteq> [] then
            (case dropWhile is_digit r of
               [] \<Rightarrow> None
             | d # a' \<Rightarrow> if d = CHR ''.'' then Some a' else None)
          else None)"

text \<open>
  \<open>\s*[-*]\s+\<close> and \<open>\s*\d+\.\s+\<close> matched at the start of the argument. The marker
  is no whitespace and the dot no digit, so the greedy runs before them are maximal.
\<close>

definition bullet_after :: "string \<Rightarrow> bool" where
  "bullet_after s =
     (case dropWhile is_space s of
        b # w # _ \<Rightarrow> is_bullet b \<and> is_space w
      | _ \<Rightarrow> False)"

definition number_after :: "string \<Rightarrow> bool" where
  "number_after s =
     (let r = dropWhile is_space s
      in takeWhile is_digit r \<noteq> [] \<and>
         (case dropWhile is_digit r of
            d # w # _ \<Rightarrow> d = CHR ''.'' \<and> is_space w
          | _ \<Rightarrow> False))"

text \<open>\<open>re.search\<close> for a newline followed by a match of \<open>p\<close>.\<close>

fun search_after_newline :: "(string \<Rightarrow> bool) \<Rightarrow> string \<Rightarrow> bool" where
  "search_after_newline p [] = False"
| "search_after_newline p (c # cs) = ((c = CHR 0x0A \<and> p cs) \<or> search_after_newline p cs)"

text \<open>\<open>s.split(d)\<close> for a one-character separator.\<close>

fun split_on :: "char \<Rightarrow> string \<Rightarrow> string list" where
  "split_on d [] = [[]]"
| "split_on d (c # cs) =
     (if c = d then [] # split_on d cs
      else (case split_on d cs of [] \<Rightarrow> [[c]] | l # ls \<Rightarrow> (c # l) # ls))"

text \<open>
  Group 1 of \<open>re.match(r'\s*(?:[-*]|\d+\.)\s+(.*)', line)\<close>: the rest of the line after
  the marker and the whitespace behind it, up to a newline.
\<close>

definition list_line_item :: "string \<Rightarrow> string option" where
  "list_line_item line =
     (case marker_rest (dropWhile is_space line) of
        None \<Rightarrow> None
      | Some a \<Rightarrow>
          (case a of
             [] \<Rightarrow> None
           | w # _ \<Rightarrow>
               if is_space w then Some (takeWhile (\<lambda>c. c \<noteq> CHR 0x0A) (dropWhile is_space a))
               else None))"

text \<open>\<open>re.split(r'[,;\t\n]+', s)\<close>\<close>

function split_delims :: "string \<Rightarrow> string list" where
  "split_delims [] = [[]]"
| "split_delims (c # cs) =
     (if is_delim c then [] # split_delims (dropWhile is_delim cs)
      else (case split_delims cs of [] \<Rightarrow> [[c]] | l # ls \<Rightarrow> (c # l) # ls))"
  by pat_completeness auto
termination
  by (relation "measure length") (auto simp: le_imp_less_Suc length_dropWhile_le)

text \<open>
  \<open>re.sub(r'^\s*[-*]\s+|^\s*\d+\.\s+', '', item)\<close>: only a match at the start is
  replaced.
\<close>

definition strip_marker :: "string \<Rightarrow> string" where
  "strip_marker item =
     (case marker_rest (dropWhile is_space item) of
        None \<Rightarrow> item
      | Some a \<Rightarrow>
          (case a of
             [] \<Rightarrow> item
           | w # _ \<Rightarrow> if is_space w then dropWhile is_space a else item))"

text \<open>\<open>re.sub(r'\s+', ' ', s)\<close>\<close>

function collapse_spaces :: "string \<Rightarrow> string" where
  "collapse_spaces [] = []"
| "collapse_spaces (c # cs) =
     (if is_space c then CHR '' '' # collapse_spaces (dropWhile is_space cs)
      else c # collapse_spaces cs)"
  by pat_completeness auto
termination
  by (relation "measure length") (auto simp: le_imp_less_Suc length_dropWhile_le)

definition normalize_list_items :: "GradingSimulator \<Rightarrow> string \<Rightarrow> bool \<Rightarrow> string list" where
  "normalize_list_items self answer case_sensitive =
     (let items =
            (if search_after_newline bullet_after (CHR 0x0A # answer)
                \<or> search_after_newline number_after (CHR 0x0A # answer)
             then List.map_filter
                    (\<lambda>line. case list_line_item line of
                              None \<Rightarrow> None
                            | Some g \<Rightarrow> if strip g \<noteq> [] then Some (strip g) else None)
                    (split_on (CHR 0x0A) answer)
             else [])
      in if items \<noteq> [] then (if \<not> case_sensitive then map lower items else items)
         else
           List.map_filter
             (\<lambda>item. let clean = strip (collapse_spaces (strip_marker item))
                      in if clean \<noteq> [] then Some (if \<not> case_sensitive then lower clean else clean)
                         else None)
             (split_delims answer))"

subsection \<open>Longest common subsequence\<close>

text \<open>
  The table \<open>dp\<close> has \<open>m + 1\<close> rows of \<open>n + 1\<close> cells; the loops visit
  \<open>1 \<le> i \<le> m\<close> and \<open>1 \<le> j \<le> n\<close>, so every index below is in range.
\<close>

definition lcs_cell :: "'a list \<Rightarrow> 'a list \<Rightarrow> nat \<Rightarrow> nat list list \<Rightarrow> nat \<Rightarrow> nat list list" where
  "lcs_cell list1 list2 i dp j =
     (if list1 ! (i - 1) = list2 ! (j - 1)
      then dp[i := (dp ! i)[j := dp ! (i - 1) ! (j - 1) + 1]]
      else dp[i := (dp ! i)[j := max (dp ! (i - 1) ! j) (dp ! i ! (j - 1))]])"

definition lcs_row :: "'a list \<Rightarrow> 'a list \<Rightarrow> nat list list \<Rightarrow> nat \<Rightarrow> nat list list" where
  "lcs_row list1 list2 dp i = foldl (lcs_cell list1 list2 i) dp [1..<length list2 + 1]"

definition longest_common_subsequence :: "GradingSimulator \<Rightarrow> 'a list \<Rightarrow> 'a list \<Rightarrow> nat" where
  "longest_common_subsequence self list1 list2 =
     (let m = length list1;
          n = length list2;
          dp = replicate (m + 1) (replicate (n + 1) 0)
      in foldl (lcs_row list1 list2) dp [1..<m + 1] ! m ! n)"

text \<open>
  The recurrence the table implements, on the first \<open>i\<close> items of \<open>xs\<close> and the first
  \<open>j\<close> items of \<open>ys\<close>, and the invariant of the loops: the table has its shape, and
  the first row, the first column, the rows before \<open>i\<close> and the cells of row \<open>i\<close> up to
  column \<open>j\<close> hold the values of the recurrence.
\<close>

fun lcs_len :: "'a list \<Rightarrow> 'a list \<Rightarrow> nat \<Rightarrow> nat \<Rightarrow> nat" where
  "lcs_len xs ys 0 j = 0"
| "lcs_len xs ys (Suc i) 0 = 0"
| "lcs_len xs ys (Suc i) (Suc j) =
     (if xs ! i = ys ! j then lcs_len xs ys i j + 1
      else max (lcs_len xs ys i (Suc j)) (lcs_len xs ys (Suc i) j))"

definition table_ok :: "'a list \<Rightarrow> 'a list \<Rightarrow> nat list list \<Rightarrow> nat \<Rightarrow> nat \<Rightarrow> bool" where
  "table_ok xs ys dp i j \<longleftrightarrow>
     length dp = length xs + 1 \<and>
     (\<forall>a \<le> length xs. length (dp ! a) = length ys + 1) \<and>
     (\<forall>a \<le> length xs. \<forall>b \<le> length ys.
        (a = 0 \<or> b = 0 \<or> a < i \<or> (a = i \<and> b \<le> j)) \<longrightarrow> dp ! a ! b = lcs_len xs ys a b)"

subsection \<open>Grading\<close>

text \<open>An answer is one string or a sequence of items, each given by its \<open>str()\<close> text.\<close>

datatype list_answer = AStr string | AList "string list"

text \<open>
  \<open>matched_items\<close> is a list, or \<open>list(s)\<close> of a set \<open>s\<close>, whose order the source does
  not fix: the model keeps the set.
\<close>

datatype matched = ItemList "string list" | ItemSet "string set"

record ListResult = GradingResult +
  matched_items :: matched

definition is_empty_answer :: "list_answer \<Rightarrow> bool" where
  "is_empty_answer a = (case a of AStr s \<Rightarrow> s = [] | AList xs \<Rightarrow> xs = [])"

definition tokens :: "GradingSimulator \<Rightarrow> list_answer \<Rightarrow> bool \<Rightarrow> string list" where
  "tokens self a case_sensitive =
     (case a of
        AStr s \<Rightarrow> normalize_list_items self s case_sensitive
      | AList xs \<Rightarrow> if \<not> case_sensitive then map lower (map strip xs) else map strip xs)"

text \<open>\<open>(a / b) * 100\<close> on lengths: true division raises on a zero divisor.\<close>

definition percent_of :: "nat \<Rightarrow> nat \<Rightarrow> exn + pyfloat" where
  "percent_of a b = (if b = 0 then Inl ZeroDivisionError else Inr (Fin (real a / real b * 100)))"

definition grade_list ::
  "GradingSimulator \<Rightarrow> list_answer \<Rightarrow> list_answer \<Rightarrow> bool \<Rightarrow> bool \<Rightarrow> bool \<Rightarrow> exn + ListResult" where
  "grade_list self student_answer correct_answer order_sensitive partial_matching case_sensitive =
     (if is_empty_answer student_answer \<or> is_empty_answer correct_answer then
        Inr \<lparr>is_correct = False, score_percentage = Fin 0, explanation = [Lit ''Missing answer''],
             matched_items = ItemList []\<rparr>
      else
        let student_list = tokens self student_answer case_sensitive;
            correct_list = tokens self correct_answer case_sensitive
        in if order_sensitive then
             if student_list = correct_list then
               Inr \<lparr>is_correct = True, score_percentage = Fin 100,
                    explanation = [Lit ''Perfect match with correct order''],
                    matched_items = ItemList student_list\<rparr>
             else if partial_matching then
               bind_exn (percent_of (longest_common_subsequence self student_list correct_list)
                                    (length correct_list)) (\<lambda>score.
               Inr \<lparr>is_correct = fge score (Fin 100), score_percentage = score,
                    explanation = [Lit ''Partial match: '', FFixed 1 score, Lit ''% (order matters)''],
                    matched_items = ItemList []\<rparr>)
             else
               Inr \<lparr>is_correct = False, score_percentage = Fin 0,
                    explanation = [Lit ''Lists don't match (order matters)''],
                    matched_items = ItemList []\<rparr>
           else
             let student_set = set student_list;
                 correct_set = set correct_list;
                 matched = student_set \<inter> correct_set
             in if student_set = correct_set then
                  Inr \<lparr>is_correct = True, score_percentage = Fin 100,
                       explanation = [Lit ''Perfect match (all items present)''],
                       matched_items = ItemSet matched\<rparr>
                else if partial_matching then
                  bind_exn (percent_of (card matched) (card correct_set)) (\<lambda>score.
                  Inr \<lparr>is_correct = fge score (Fin 100), score_percentage = score,
                       explanation = [Lit ''Partial match: '', FNat (card matched), Lit ''/'',
                                      FNat (card correct_set), Lit '' items correct''],
                       matched_items = ItemSet matched\<rparr>)
                else
                  Inr \<lparr>is_correct = False, score_percentage = Fin 0,
                       explanation = [Lit ''Lists don't match''],
                       matched_items = ItemSet matched\<rparr>)"

section \<open>Short phrases\<close>

text \<open>
  \<open>\b\<close> between the character before a position, if any, and the text from the
  position on.
\<close>

definition boundary :: "char option \<Rightarrow> string \<Rightarrow> bool" where
  "boundary prev rest =
     ((case prev of None \<Rightarrow> False | Some p \<Rightarrow> is_word p)
      \<noteq> (case rest of [] \<Rightarrow> False | c # _ \<Rightarrow> is_word c))"

text \<open>
  \<open>\.\d+\b\<close> at the start of the argument: the greedy \<open>\d+\<close> takes the longest run
  of digits and gives digits back until a word boundary follows.
\<close>

definition frac_match :: "string \<Rightarrow> string option" where
  "frac_match r =
     (case r of
        [] \<Rightarrow> None
      | d # r1 \<Rightarrow>
          if d = CHR ''.'' then
            (case find (\<lambda>k. boundary (Some (r1 ! (k - 1))) (drop k r1))
                       (rev [1..<length (takeWhile is_digit r1) + 1]) of
               None \<Rightarrow> None
             | Some k \<Rightarrow> Some (d # take k r1))
          else None)"

text \<open>
  The alternatives \<open>[01](?:\.\d+)?\<close> and \<open>0\.\d+\<close>, each followed by \<open>\b\<close>, at a
  position whose character is \<open>c\<close>.
\<close>

definition first_alternative :: "char \<Rightarrow> string \<Rightarrow> string option" where
  "first_alternative c r =
     (if c = CHR ''0'' \<or> c = CHR ''1'' then
        (case frac_match r of
           Some f \<Rightarrow> Some (c # f)
         | None \<Rightarrow> if boundary (Some c) r then Some [c] else None)
      else None)"

definition second_alternative :: "char \<Rightarrow> string \<Rightarrow> string option" where
  "second_alternative c r =
     (if c = CHR ''0'' then (case frac_match r of Some f \<Rightarrow> Some (c # f) | None \<Rightarrow> None)
      else None)"

text \<open>
  Group 1 of \<open>re.search(r'\b([01](?:\.\d+)?|0\.\d+)\b', content)\<close>: the leftmost
  match, \<open>prev\<close> being the character before the text.
\<close>

fun search_number :: "char option \<Rightarrow> string \<Rightarrow> string option" where
  "search_number prev [] = None"
| "search_number prev (c # r) =
     (if boundary prev (c # r) then
        (case first_alternative c r of
           Some m \<Rightarrow> Some m
         | None \<Rightarrow>
             (case second_alternative c r of
                Some m \<Rightarrow> Some m
              | None \<Rightarrow> search_number (Some c) r))
      else search_number (Some c) r)"

text \<open>
  The oracle is the chat service: from the system prompt and the user prompt to the
  content of the reply, or to the exception that the call or the access to the reply
  raises.
\<close>

type_synonym chat_service = "string \<Rightarrow> string \<Rightarrow> exn + string"

definition system_prompt :: string where
  "system_prompt = ''You are an AI assistant for grading papers. Your task is to compare student answers with correct answers.''"

definition user_prompt :: "string \<Rightarrow> string \<Rightarrow> string option \<Rightarrow> string" where
  "user_prompt student_answer correct_answer question_text =
     (case question_text of
        Some q \<Rightarrow>
          if q \<noteq> [] then
            ''Question: '' @ q @ [CHR 0x0A, CHR 0x0A] @ ''Student Answer: '' @ student_answer
            @ [CHR 0x0A, CHR 0x0A] @ ''Correct Answer: '' @ correct_answer @ [CHR 0x0A, CHR 0x0A]
            @ ''Are these answers semantically equivalent? Return a number from 0 to 1 representing the confidence score, where 1 means identical meaning and 0 means completely different meaning. Only return the number.''
          else
            ''Student Answer: '' @ student_answer @ [CHR 0x0A, CHR 0x0A] @ ''Correct Answer: ''
            @ correct_answer @ [CHR 0x0A, CHR 0x0A]
            @ ''Return a number from 0 to 1 representing how similar these answers are in meaning, where 1 means identical and 0 means completely different. Only return the number.''
      | None \<Rightarrow>
          ''Student Answer: '' @ student_answer @ [CHR 0x0A, CHR 0x0A] @ ''Correct Answer: ''
          @ correct_answer @ [CHR 0x0A, CHR 0x0A]
          @ ''Return a number from 0 to 1 representing how similar these answers are in meaning, where 1 means identical and 0 means completely different. Only return the number.'')"

text \<open>The body of the \<open>try\<close> statement, from the reply on.\<close>

definition confidence_of_reply :: "string \<Rightarrow> exn + pyfloat" where
  "confidence_of_reply reply =
     (let content = strip reply
      in case search_number None content of
           Some m \<Rightarrow> float_str m
         | None \<Rightarrow> Inr (if contains ''true'' (lower content) then Fin 1 else Fin 0))"

text \<open>The handler is \<open>except Exception\<close>: every failure gives \<open>(False, 0.0)\<close>.\<close>

definition check_meaning_with_ollama ::
  "GradingSimulator \<Rightarrow> chat_service \<Rightarrow> string \<Rightarrow> string \<Rightarrow> string option \<Rightarrow> pyfloat \<Rightarrow> bool \<times> pyfloat" where
  "check_meaning_with_ollama self chat student_answer correct_answer question_text threshold =
     (case bind_exn (chat system_prompt (user_prompt student_answer correct_answer question_text))
                    confidence_of_reply of
        Inr conf \<Rightarrow> (fge conf threshold, conf)
      | Inl e \<Rightarrow> (False, Fin 0))"

record PhraseResult = GradingResult +
  confidence :: pyfloat

definition grade_short_phrase ::
  "GradingSimulator \<Rightarrow> chat_service \<Rightarrow> string \<Rightarrow> string \<Rightarrow> string option \<Rightarrow> pyfloat \<Rightarrow> PhraseResult" where
  "grade_short_phrase self chat student_answer correct_answer question_text semantic_threshold =
     (if student_answer = [] \<or> correct_answer = [] then
        \<lparr>is_correct = False, score_percentage = Fin 0, explanation = [Lit ''Missing answer''],
         confidence = Fin 0\<rparr>
      else
        let (is_match, conf) =
              check_meaning_with_ollama self chat student_answer correct_answer question_text
                semantic_threshold
        in \<lparr>is_correct = is_match, score_percentage = fmul conf (Fin 100),
            explanation = [Lit ''Semantic similarity: '', FFixed 2 conf], confidence = conf\<rparr>)"

section \<open>The table of the longest common subsequence\<close>

lemma lcs_len_zero_right [simp]: "lcs_len xs ys i 0 = 0"
  by (cases i) simp_all

lemma table_ok_init:
  "table_ok xs ys (replicate (length xs + 1) (replicate (length ys + 1) 0)) 0 (length ys)"
  unfolding table_ok_def by (auto simp del: replicate.simps)

lemma table_ok_cell:
  assumes ok: "table_ok xs ys dp (Suc i) j" and i: "Suc i \<le> length xs" and j: "Suc j \<le> length ys"
  shows "table_ok xs ys (lcs_cell xs ys (Suc i) dp (Suc j)) (Suc i) (Suc j)"
proof -
  have len: "length dp = length xs + 1"
    using ok unfolding table_ok_def by blast
  have rows: "length (dp ! a) = length ys + 1" if "a \<le> length xs" for a
    using ok that unfolding table_ok_def by blast
  have vals: "dp ! a ! b = lcs_len xs ys a b"
    if "a \<le> length xs" "b \<le> length ys" "a = 0 \<or> b = 0 \<or> a < Suc i \<or> (a = Suc i \<and> b \<le> j)" for a b
    using ok that unfolding table_ok_def by blast
  have d: "dp ! i ! j = lcs_len xs ys i j" using vals[of i j] i j by auto
  have u: "dp ! i ! Suc j = lcs_len xs ys i (Suc j)" using vals[of i "Suc j"] i j by auto
  have l: "dp ! Suc i ! j = lcs_len xs ys (Suc i) j" using vals[of "Suc i" j] i j by auto
  define v where "v = lcs_len xs ys (Suc i) (Suc j)"
  have cell: "lcs_cell xs ys (Suc i) dp (Suc j) = dp[Suc i := (dp ! Suc i)[Suc j := v]]"
    unfolding lcs_cell_def v_def using d u l by simp
  show ?thesis
    unfolding table_ok_def cell
  proof (intro conjI allI impI)
    show "length (dp[Suc i := (dp ! Suc i)[Suc j := v]]) = length xs + 1" using len by simp
  next
    fix a assume "a \<le> length xs"
    then show "length (dp[Suc i := (dp ! Suc i)[Suc j := v]] ! a) = length ys + 1"
      using rows[of a] rows[of "Suc i"] len i by (cases "a = Suc i") simp_all
  next
    fix a b assume a: "a \<le> length xs" and b: "b \<le> length ys"
      and c: "a = 0 \<or> b = 0 \<or> a < Suc i \<or> a = Suc i \<and> b \<le> Suc j"
    show "dp[Suc i := (dp ! Suc i)[Suc j := v]] ! a ! b = lcs_len xs ys a b"
    proof (cases "a = Suc i \<and> b = Suc j")
      case True
      then show ?thesis using len rows[of "Suc i"] i j by (simp add: v_def)
    next
      case False
      then have "dp[Suc i := (dp ! Suc i)[Suc j := v]] ! a ! b = dp ! a ! b"
        using len i by (cases "a = Suc i") auto
      moreover have "dp ! a ! b = lcs_len xs ys a b"
        using vals[OF a b] c False by auto
      ultimately show ?thesis by simp
    qed
  qed
qed

lemma table_ok_cells:
  assumes "table_ok xs ys dp (Suc i) 0" and "Suc i \<le> length xs" and "k \<le> length ys"
  shows "table_ok xs ys (foldl (lcs_cell xs ys (Suc i)) dp [1..<Suc k]) (Suc i) k"
  using assms(3)
proof (induction k)
  case 0
  then show ?case using assms(1) by simp
next
  case (Suc k)
  then have "table_ok xs ys (foldl (lcs_cell xs ys (Suc i)) dp [1..<Suc k]) (Suc i) k" by simp
  from table_ok_cell[OF this assms(2)] Suc.prems show ?case by simp
qed

lemma table_ok_next_row:
  assumes "table_ok xs ys dp i (length ys)"
  shows "table_ok xs ys dp (Suc i) 0"
proof -
  have "dp ! a ! b = lcs_len xs ys a b"
    if "a \<le> length xs" "b \<le> length ys" "a = 0 \<or> b = 0 \<or> a < Suc i \<or> (a = Suc i \<and> b \<le> 0)" for a b
  proof -
    from that(3) have "a = 0 \<or> b = 0 \<or> a < i \<or> (a = i \<and> b \<le> length ys)"
      using that(2) by auto
    with assms that(1,2) show ?thesis unfolding table_ok_def by blast
  qed
  with assms show ?thesis unfolding table_ok_def by blast
qed

lemma table_ok_row:
  assumes "table_ok xs ys dp i (length ys)" and "Suc i \<le> length xs"
  shows "table_ok xs ys (lcs_row xs ys dp (Suc i)) (Suc i) (length ys)"
  unfolding lcs_row_def
  using table_ok_cells[OF table_ok_next_row[OF assms(1)] assms(2), of "length ys"] by simp

lemma table_ok_rows:
  assumes "table_ok xs ys dp 0 (length ys)" and "k \<le> length xs"
  shows "table_ok xs ys (foldl (lcs_row xs ys) dp [1..<Suc k]) k (length ys)"
  using assms(2)
proof (induction k)
  case 0
  then show ?case using assms(1) by simp
next
  case (Suc k)
  then have "table_ok xs ys (foldl (lcs_row xs ys) dp [1..<Suc k]) k (length ys)" by simp
  from table_ok_row[OF this] Suc.prems show ?case by simp
qed

lemma table_ok_final:
  "table_ok xs ys dp (length xs) (length ys) \<Longrightarrow>
   dp ! length xs ! length ys = lcs_len xs ys (length xs) (length ys)"
  unfolding table_ok_def by blast

lemma longest_common_subsequence_lcs_len:
  "longest_common_subsequence self xs ys = lcs_len xs ys (length xs) (length ys)"
proof -
  have "table_ok xs ys (foldl (lcs_row xs ys) (replicate (length xs + 1) (replicate (length ys + 1) 0))
          [1..<Suc (length xs)]) (length xs) (length ys)"
    by (rule table_ok_rows[OF table_ok_init order_refl])
  from table_ok_final[OF this] show ?thesis
    unfolding longest_common_subsequence_def Let_def by (simp only: Suc_eq_plus1)
qed

lemma lcs_len_le: "lcs_len xs ys i j \<le> j"
  by (induction xs ys i j rule: lcs_len.induct) auto

lemma subseq_snoc_same: "subseq (us @ [x]) (vs @ [x]) \<longleftrightarrow> subseq us vs"
  by simp

lemma subseq_singleton: "subseq b [x] \<Longrightarrow> b = [] \<or> b = [x]"
  by (cases b) (auto split: if_splits)

lemma subseq_snoc_neq:
  assumes "x \<noteq> y"
  shows "subseq (us @ [y]) (vs @ [x]) \<longleftrightarrow> subseq (us @ [y]) vs"
proof
  assume "subseq (us @ [y]) (vs @ [x])"
  then obtain a b where ab: "us @ [y] = a @ b" "subseq a vs" "subseq b [x]"
    by (auto simp: subseq_append_iff)
  from subseq_singleton[OF ab(3)] show "subseq (us @ [y]) vs"
  proof
    assume "b = []"
    with ab show ?thesis by simp
  next
    assume "b = [x]"
    with ab(1) assms show ?thesis by simp
  qed
next
  assume "subseq (us @ [y]) vs"
  then show "subseq (us @ [y]) (vs @ [x])" by (rule subseq_rev_drop_many)
qed

lemma lcs_len_full_iff:
  "i \<le> length xs \<Longrightarrow> j \<le> length ys \<Longrightarrow>
   lcs_len xs ys i j = j \<longleftrightarrow> subseq (take j ys) (take i xs)"
proof (induction xs ys i j rule: lcs_len.induct)
  case (1 xs ys j)
  then show ?case by (auto dest!: list_emb_Nil2 simp: take_eq_Nil)
next
  case (2 xs ys i)
  then show ?case by simp
next
  case (3 xs ys i j)
  have tx: "take (Suc i) xs = take i xs @ [xs ! i]" using "3.prems" by (simp add: take_Suc_conv_app_nth)
  have ty: "take (Suc j) ys = take j ys @ [ys ! j]" using "3.prems" by (simp add: take_Suc_conv_app_nth)
  show ?case
  proof (cases "xs ! i = ys ! j")
    case True
    then show ?thesis using 3 tx ty by simp
  next
    case False
    have "lcs_len xs ys (Suc i) j \<le> j" by (rule lcs_len_le)
    moreover have "lcs_len xs ys i (Suc j) \<le> Suc j" by (rule lcs_len_le)
    ultimately have "lcs_len xs ys (Suc i) (Suc j) = Suc j \<longleftrightarrow> lcs_len xs ys i (Suc j) = Suc j"
      using False by (simp add: max_def)
    also have "\<dots> \<longleftrightarrow> subseq (take (Suc j) ys) (take i xs)" using 3 False by simp
    also have "\<dots> \<longleftrightarrow> subseq (take (Suc j) ys) (take (Suc i) xs)"
      unfolding tx ty using subseq_snoc_neq[of "xs ! i" "ys ! j"] False by simp
    finally show ?thesis .
  qed
qed

section \<open>Facts about floats and scores\<close>

lemma fle_NaN_right [simp]: "fle a NaN = False"
  by (cases a) simp_all


lemma lcs_le_length: "longest_common_subsequence self xs ys \<le> length ys"
  by (simp add: longest_common_subsequence_lcs_len lcs_len_le)

lemma lcs_full_iff_subseq:
  "longest_common_subsequence self xs ys = length ys \<longleftrightarrow> subseq ys xs"
  using lcs_len_full_iff[of "length xs" xs "length ys" ys]
  by (simp add: longest_common_subsequence_lcs_len)

lemma percent_of_pos:
  "0 < n \<Longrightarrow> percent_of a n = Inr (Fin (real a / real n * 100))"
  by (simp add: percent_of_def)

lemma percent_of_full:
  assumes "0 < n"
  shows "\<exists>x. percent_of a n = Inr x \<and> (fge x (Fin 100) \<longleftrightarrow> n \<le> a)"
proof -
  have "fge (Fin (real a / real n * 100)) (Fin 100) \<longleftrightarrow> n \<le> a"
    using assms by (simp add: fge_def field_simps)
  then show ?thesis using assms by (simp add: percent_of_def)
qed

lemma card_inter_full_iff:
  "finite C \<Longrightarrow> card C \<le> card (S \<inter> C) \<longleftrightarrow> C \<subseteq> S"
proof
  assume f: "finite C" and le: "card C \<le> card (S \<inter> C)"
  have "S \<inter> C = C" using f le by (intro card_seteq) auto
  then show "C \<subseteq> S" by auto
next
  assume "finite C" "C \<subseteq> S"
  then have "S \<inter> C = C" by auto
  then show "card C \<le> card (S \<inter> C)" by simp
qed

section \<open>Partial credit for lists\<close>

text \<open>
  Claim C1, as it holds. With \<open>partial_matching\<close> set and a correct answer that has
  tokens, the partial-credit branch marks the answer correct exactly when the score
  reaches 100: on the order-sensitive path, reached when the token sequences differ, when
  the correct sequence is a subsequence of the student's; on the order-insensitive path,
  reached when the token sets differ, when the correct set is a proper subset of the
  student's.
\<close>

theorem partial_credit_correct_iff:
  assumes "\<not> is_empty_answer student" and "\<not> is_empty_answer correct"
    and "tokens self correct cs \<noteq> []"
  shows "(tokens self student cs \<noteq> tokens self correct cs \<longrightarrow>
           (\<exists>r. grade_list self student correct True True cs = Inr r \<and>
                is_correct r = subseq (tokens self correct cs) (tokens self student cs)))
         \<and> (set (tokens self student cs) \<noteq> set (tokens self correct cs) \<longrightarrow>
           (\<exists>r. grade_list self student correct False True cs = Inr r \<and>
                is_correct r = (set (tokens self correct cs) \<subset> set (tokens self student cs))))"
proof (intro conjI impI)
  let ?S = "tokens self student cs" and ?C = "tokens self correct cs"
  have n: "0 < length ?C" using assms(3) by simp
  assume ne: "?S \<noteq> ?C"
  have "longest_common_subsequence self ?S ?C \<le> length ?C" by (rule lcs_le_length)
  then have "length ?C \<le> longest_common_subsequence self ?S ?C \<longleftrightarrow> subseq ?C ?S"
    using lcs_full_iff_subseq[of self ?S ?C] by auto
  moreover obtain x where "percent_of (longest_common_subsequence self ?S ?C) (length ?C) = Inr x"
    and "fge x (Fin 100) \<longleftrightarrow> length ?C \<le> longest_common_subsequence self ?S ?C"
    using percent_of_full[OF n] by blast
  ultimately show "\<exists>r. grade_list self student correct True True cs = Inr r \<and> is_correct r = subseq ?C ?S"
    using assms(1,2) ne
    by (simp add: grade_list_def Let_def bind_exn_def)
next
  let ?S = "tokens self student cs" and ?C = "tokens self correct cs"
  have n: "0 < card (set ?C)" using assms(3) by (simp add: card_gt_0_iff)
  assume ne: "set ?S \<noteq> set ?C"
  have "card (set ?C) \<le> card (set ?S \<inter> set ?C) \<longleftrightarrow> set ?C \<subseteq> set ?S"
    by (rule card_inter_full_iff) simp
  then have "card (set ?C) \<le> card (set ?S \<inter> set ?C) \<longleftrightarrow> set ?C \<subset> set ?S"
    using ne by auto
  moreover obtain x where "percent_of (card (set ?S \<inter> set ?C)) (card (set ?C)) = Inr x"
    and "fge x (Fin 100) \<longleftrightarrow> card (set ?C) \<le> card (set ?S \<inter> set ?C)"
    using percent_of_full[OF n] by blast
  ultimately show "\<exists>r. grade_list self student correct False True cs = Inr r \<and> is_correct r = (set ?C \<subset> set ?S)"
    using assms(1,2) ne
    by (simp add: grade_list_def Let_def bind_exn_def)
qed

theorem partial_credit_correct_iff_witness:
  "(\<exists>r. grade_list (new_simulator None) (AList [''a'', ''x'', ''b'']) (AList [''a'', ''b'']) True True True = Inr r
        \<and> is_correct r)
   \<and> (\<exists>r. grade_list (new_simulator None) (AList [''a'', ''x'', ''b'']) (AList [''a'', ''b'']) False True True = Inr r
        \<and> is_correct r)"
proof -
  have s: "tokens (new_simulator None) (AList [''a'', ''x'', ''b'']) True = [''a'', ''x'', ''b'']"
    by code_simp
  have c: "tokens (new_simulator None) (AList [''a'', ''b'']) True = [''a'', ''b'']"
    by code_simp
  have e1: "\<not> is_empty_answer (AList [''a'', ''x'', ''b''])"
    by (simp add: is_empty_answer_def)
  have e2: "\<not> is_empty_answer (AList [''a'', ''b''])"
    by (simp add: is_empty_answer_def)
  have n: "tokens (new_simulator None) (AList [''a'', ''b'']) True \<noteq> []"
    unfolding c by simp
  have l: "[''a'', ''x'', ''b''] \<noteq> [''a'', ''b'']" by simp
  have q: "subseq [''a'', ''b''] [''a'', ''x'', ''b'']" by simp
  have x: "''x'' \<notin> {''a'', ''b''}" by simp
  have d: "set [''a'', ''x'', ''b''] \<noteq> set [''a'', ''b'']"
  proof
    assume "set [''a'', ''x'', ''b''] = set [''a'', ''b'']"
    then have "''x'' \<in> set [''a'', ''b'']" by (metis list.set_intros(1,2))
    with x show False by simp
  qed
  have p: "set [''a'', ''b''] \<subset> set [''a'', ''x'', ''b'']"
  proof -
    have "set [''a'', ''b''] \<subseteq> set [''a'', ''x'', ''b'']" by simp
    with d show ?thesis by blast
  qed
  from partial_credit_correct_iff[OF e1 e2 n] show ?thesis
    unfolding s c using l q d p by blast
qed

text \<open>
  Claim C1 as stated fails: the student's tokens \<open>a, b, c\<close> differ from the correct
  tokens \<open>a, b\<close> as sequences and as sets, and the partial-credit branch returns
  \<open>is_correct = True\<close> with score 100 on both paths.
\<close>

theorem partial_credit_counterexample:
  "tokens (new_simulator None) (AList [''a'', ''b'', ''c'']) False \<noteq> tokens (new_simulator None) (AList [''a'', ''b'']) False
   \<and> grade_list (new_simulator None) (AList [''a'', ''b'', ''c'']) (AList [''a'', ''b'']) True True False
       = Inr \<lparr>is_correct = True, score_percentage = Fin 100,
              explanation = [Lit ''Partial match: '', FFixed 1 (Fin 100), Lit ''% (order matters)''],
              matched_items = ItemList []\<rparr>
   \<and> set (tokens (new_simulator None) (AList [''a'', ''b'', ''c'']) False) \<noteq> set (tokens (new_simulator None) (AList [''a'', ''b'']) False)
   \<and> grade_list (new_simulator None) (AList [''a'', ''b'', ''c'']) (AList [''a'', ''b'']) False True False
       = Inr \<lparr>is_correct = True, score_percentage = Fin 100,
              explanation = [Lit ''Partial match: '', FNat 2, Lit ''/'', FNat 2, Lit '' items correct''],
              matched_items = ItemSet {''a'', ''b''}\<rparr>"
proof (intro conjI)
  show "tokens (new_simulator None) (AList [''a'', ''b'', ''c'']) False \<noteq> tokens (new_simulator None) (AList [''a'', ''b'']) False"
    by code_simp
  show "grade_list (new_simulator None) (AList [''a'', ''b'', ''c'']) (AList [''a'', ''b'']) True True False
       = Inr \<lparr>is_correct = True, score_percentage = Fin 100,
              explanation = [Lit ''Partial match: '', FFixed 1 (Fin 100), Lit ''% (order matters)''],
              matched_items = ItemList []\<rparr>"
    by code_simp
  show "set (tokens (new_simulator None) (AList [''a'', ''b'', ''c'']) False) \<noteq> set (tokens (new_simulator None) (AList [''a'', ''b'']) False)"
    by code_simp
  show "grade_list (new_simulator None) (AList [''a'', ''b'', ''c'']) (AList [''a'', ''b'']) False True False
       = Inr \<lparr>is_correct = True, score_percentage = Fin 100,
              explanation = [Lit ''Partial match: '', FNat 2, Lit ''/'', FNat 2, Lit '' items correct''],
              matched_items = ItemSet {''a'', ''b''}\<rparr>"
    by code_simp
qed

section \<open>Exceptions that reach the caller\<close>

text \<open>
  Claim C2 fails on the code. The correct answer \<open>,,,\<close> is not empty, so the guard for
  a missing answer lets it pass, but it has no tokens: the partial-credit score divides by
  the number of correct tokens, and \<open>grade_list\<close> raises \<open>ZeroDivisionError\<close> to its
  caller instead of returning a result.
\<close>

theorem grade_list_delimiters_only_raises:
  "grade_list (new_simulator None) (AStr ''a'') (AStr '',,,'') False True False = Inl ZeroDivisionError"
  by code_simp

section \<open>The range of the score\<close>

text \<open>
  Claim C3 fails on the code. The pattern that extracts the confidence from the reply of
  the chat service accepts \<open>1\<close> followed by any fraction, so the reply \<open>1.5\<close> gives the
  confidence 1.5 and the score 150, above 100.
\<close>

theorem short_phrase_score_above_100:
  "score_percentage (grade_short_phrase (new_simulator None) (\<lambda>system user. Inr ''1.5'') ''a'' ''b'' None (Fin (7 / 10)))
     = Fin 150"
  by code_simp

text \<open>
  The other three matchers keep the score between 0 and 100 whenever they return a result.
\<close>

lemma grade_one_word_score:
  "score_percentage (grade_one_word self student correct cs) = Fin 0
   \<or> score_percentage (grade_one_word self student correct cs) = Fin 100"
  by (simp add: grade_one_word_def Let_def)

lemma percent_of_bounds:
  assumes "percent_of a n = Inr x" and "a \<le> n"
  shows "fle (Fin 0) x \<and> fle x (Fin 100)"
proof -
  have n: "0 < n" and x: "x = Fin (real a / real n * 100)"
    using assms(1) by (auto simp: percent_of_def split: if_splits)
  have "real a / real n * 100 \<le> 100" using n assms(2) by (simp add: field_simps)
  moreover have "0 \<le> real a / real n * 100" by simp
  ultimately show ?thesis unfolding x by simp
qed

lemma grade_list_score:
  assumes "grade_list self student correct os pm cs = Inr r"
  shows "fle (Fin 0) (score_percentage r) \<and> fle (score_percentage r) (Fin 100)"
proof -
  let ?S = "tokens self student cs" and ?C = "tokens self correct cs"
  have a: "longest_common_subsequence self ?S ?C \<le> length ?C" by (rule lcs_le_length)
  have b: "card (set ?S \<inter> set ?C) \<le> card (set ?C)" by (simp add: card_mono)
  show ?thesis
    using assms percent_of_bounds[OF _ a] percent_of_bounds[OF _ b]
    by (auto simp: grade_list_def Let_def bind_exn_def split: if_splits sum.splits)
qed

lemma grade_numerical_score:
  assumes "grade_numerical self student correct rs tol ar = Inr r"
  shows "score_percentage r = Fin 0 \<or> score_percentage r = Fin 100"
  using assms
  unfolding grade_numerical_def grade_numerical_try_def Let_def bind_exn_def
  by (auto simp: invalid_format_def outside_result_def
      split: if_splits sum.splits prod.splits exn.splits)

lemma grade_list_missing_answer:
  "is_empty_answer student \<or> is_empty_answer correct \<Longrightarrow>
   grade_list self student correct os pm cs
     = Inr \<lparr>is_correct = False, score_percentage = Fin 0, explanation = [Lit ''Missing answer''],
            matched_items = ItemList []\<rparr>"
  by (simp add: grade_list_def)

lemma grade_list_returns:
  "tokens self correct cs \<noteq> [] \<Longrightarrow> \<exists>r. grade_list self student correct os pm cs = Inr r"
  by (simp add: grade_list_def Let_def bind_exn_def percent_of_def card_gt_0_iff)

section \<open>Answers without tokens\<close>

text \<open>
  Claim C4 fails on the code. \<open>grade_list\<close> tests the answers for emptiness before
  it normalizes them, and never after. The answers \<open>,\<close> and \<open>;\<close> both have the empty
  token sequence, and the result is a perfect match with \<open>is_correct = True\<close> and score
  100, not the result for a missing answer; a student answer \<open>,,,\<close> against the correct
  answer \<open>a\<close> is graded as a partial match of 0 out of 1 items.
\<close>

theorem grade_list_empty_tokens_not_missing:
  "tokens (new_simulator None) (AStr '','') False = []
   \<and> tokens (new_simulator None) (AStr '';'') False = []
   \<and> tokens (new_simulator None) (AStr '',,,'') False = []
   \<and> grade_list (new_simulator None) (AStr '','') (AStr '';'') False True False
       = Inr \<lparr>is_correct = True, score_percentage = Fin 100,
              explanation = [Lit ''Perfect match (all items present)''],
              matched_items = ItemSet {}\<rparr>
   \<and> grade_list (new_simulator None) (AStr '',,,'') (AStr ''a'') False True False
       = Inr \<lparr>is_correct = False, score_percentage = Fin 0,
              explanation = [Lit ''Partial match: '', FNat 0, Lit ''/'', FNat 1, Lit '' items correct''],
              matched_items = ItemSet {}\<rparr>"
proof (intro conjI)
  show "tokens (new_simulator None) (AStr '','') False = []" by code_simp
  show "tokens (new_simulator None) (AStr '';'') False = []" by code_simp
  show "tokens (new_simulator None) (AStr '',,,'') False = []" by code_simp
  show "grade_list (new_simulator None) (AStr '','') (AStr '';'') False True False
       = Inr \<lparr>is_correct = True, score_percentage = Fin 100,
              explanation = [Lit ''Perfect match (all items present)''],
              matched_items = ItemSet {}\<rparr>" by code_simp
  show "grade_list (new_simulator None) (AStr '',,,'') (AStr ''a'') False True False
       = Inr \<lparr>is_correct = False, score_percentage = Fin 0,
              explanation = [Lit ''Partial match: '', FNat 0, Lit ''/'', FNat 1, Lit '' items correct''],
              matched_items = ItemSet {}\<rparr>" by code_simp
qed

section \<open>Range and tolerance of numerical answers\<close>

text \<open>
  Claim C5 fails on the code for a negative correct value. The tolerance amount
  \<open>correct_value * (tolerance / 100)\<close> is then negative, the lower bound lies above the
  upper bound, and no student value passes the test. With the correct value \<open>-100\<close>, a
  tolerance of 10 percent and a range that does not hold the student value, \<open>-105\<close> lies
  in the band from \<open>-110\<close> to \<open>-90\<close> and is graded incorrect; so is \<open>-100.0\<close>, the
  correct value itself.
\<close>

theorem negative_correct_value_outside_tolerance:
  "grade_numerical (new_simulator None) ''-105'' ''-100'' True (PNum (Fin 10))
       (Some [(''min'', PNum (Fin 0)), (''max'', PNum (Fin 10))])
     = Inr \<lparr>is_correct = False, score_percentage = Fin 0,
            explanation = [Lit ''Value '', FFloat (Fin (- 105)), Lit '' outside acceptable range/tolerance''],
            difference = Some (Fin 5)\<rparr>
   \<and> grade_numerical (new_simulator None) ''-100.0'' ''-100'' True (PNum (Fin 10))
       (Some [(''min'', PNum (Fin 0)), (''max'', PNum (Fin 10))])
     = Inr \<lparr>is_correct = False, score_percentage = Fin 0,
            explanation = [Lit ''Value '', FFloat (Fin (- 100)), Lit '' outside acceptable range/tolerance''],
            difference = Some (Fin 0)\<rparr>"
proof (intro conjI)
  show "grade_numerical (new_simulator None) ''-105'' ''-100'' True (PNum (Fin 10))
       (Some [(''min'', PNum (Fin 0)), (''max'', PNum (Fin 10))])
     = Inr \<lparr>is_correct = False, score_percentage = Fin 0,
            explanation = [Lit ''Value '', FFloat (Fin (- 105)), Lit '' outside acceptable range/tolerance''],
            difference = Some (Fin 5)\<rparr>" by code_simp
  show "grade_numerical (new_simulator None) ''-100.0'' ''-100'' True (PNum (Fin 10))
       (Some [(''min'', PNum (Fin 0)), (''max'', PNum (Fin 10))])
     = Inr \<lparr>is_correct = False, score_percentage = Fin 0,
            explanation = [Lit ''Value '', FFloat (Fin (- 100)), Lit '' outside acceptable range/tolerance''],
            difference = Some (Fin 0)\<rparr>" by code_simp
qed

lemma float_str_Some: "py_float s = Some v \<Longrightarrow> float_str s = Inr v"
  by (simp add: float_str_def)

lemma float_str_None: "py_float s = None \<Longrightarrow> float_str s = Inl (ValueError s)"
  by (simp add: float_str_def)


lemma fdiv_100: "\<exists>q. fdiv x (Fin 100) = Inr q"
  by (cases x) (simp_all add: fdiv_def)

text \<open>
  \<open>grade_numerical\<close> always returns a result: every exception of its body is a
  \<open>ValueError\<close> or a \<open>TypeError\<close>, which the handler catches. Outside the range,
  with a finite positive tolerance \<open>t\<close> and finite values, the answer is correct exactly
  when it passes the test between the two bounds, which no value does when the correct
  value is negative.
\<close>

lemma float_str_error: "float_str s = Inl e \<Longrightarrow> e = ValueError s"
  by (auto simp: float_str_def split: option.splits)

lemma float_val_error: "float_val v = Inl e \<Longrightarrow> (\<exists>s. e = ValueError s) \<or> (\<exists>w. e = TypeError w)"
  by (cases v) (auto simp: float_val_def dest: float_str_error)

lemma val_gt_zero_error: "val_gt_zero v = Inl e \<Longrightarrow> e = TypeError v"
  by (cases v) (auto simp: val_gt_zero_def)

lemma val_div_100_error:
  assumes "val_div_100 v = Inl e"
  shows "e = TypeError v"
proof (cases v)
  case (PNum x)
  obtain q where "fdiv x (Fin 100) = Inr q" using fdiv_100 by blast
  with assms PNum show ?thesis by (simp add: val_div_100_def)
qed (use assms in \<open>simp_all add: val_div_100_def\<close>)

lemma resolve_range_error:
  "resolve_range ar tol = Inl e \<Longrightarrow> (\<exists>s. e = ValueError s) \<or> (\<exists>w. e = TypeError w)"
  by (auto simp: resolve_range_def bind_exn_def split: option.splits if_splits sum.splits
      dest: float_val_error)

lemma grade_numerical_try_error:
  "grade_numerical_try student correct rs tol ar = Inl e \<Longrightarrow>
   (\<exists>s. e = ValueError s) \<or> (\<exists>w. e = TypeError w)"
  unfolding grade_numerical_try_def Let_def bind_exn_def
  by (auto split: if_splits sum.splits prod.splits
      dest: float_str_error resolve_range_error val_gt_zero_error val_div_100_error)

lemma grade_numerical_returns:
  "\<exists>r. grade_numerical self student correct rs tol ar = Inr r"
proof (cases "grade_numerical_try student correct rs tol ar")
  case (Inl e)
  from grade_numerical_try_error[OF Inl] show ?thesis
    by (auto simp: grade_numerical_def Inl)
next
  case (Inr r)
  then show ?thesis by (simp add: grade_numerical_def)
qed

lemma tolerance_test:
  assumes ne: "cleaned student \<noteq> cleaned correct"
    and ps: "py_float (cleaned student) = Some (Fin s)"
    and pc: "py_float (cleaned correct) = Some (Fin c)"
    and rr: "resolve_range ar tol = Inr (lo, hi, PNum (Fin t))"
    and out: "\<not> (fle lo (Fin s) \<and> fle (Fin s) hi)"
    and t: "0 < t"
  shows "\<exists>r. grade_numerical self student correct True tol ar = Inr r
          \<and> is_correct r = (c - c * (t / 100) \<le> s \<and> s \<le> c + c * (t / 100))"
  using ne out t
  by (auto simp: grade_numerical_def grade_numerical_try_def Let_def bind_exn_def
        float_str_Some[OF ps] float_str_Some[OF pc] rr val_gt_zero_def val_div_100_def
        fdiv_def fgt_def fsub_def outside_result_def)

lemma tolerance_test_negative_correct:
  assumes ne: "cleaned student \<noteq> cleaned correct"
    and ps: "py_float (cleaned student) = Some (Fin s)"
    and pc: "py_float (cleaned correct) = Some (Fin c)"
    and rr: "resolve_range ar tol = Inr (lo, hi, PNum (Fin t))"
    and out: "\<not> (fle lo (Fin s) \<and> fle (Fin s) hi)"
    and t: "0 < t" and c: "c < 0"
  shows "\<exists>r. grade_numerical self student correct True tol ar = Inr r \<and> \<not> is_correct r"
proof -
  have "c * (t / 100) < 0" using t c by (simp add: mult_neg_pos)
  then have "\<not> (c - c * (t / 100) \<le> s \<and> s \<le> c + c * (t / 100))" by linarith
  with tolerance_test[OF ne ps pc rr out t, of self] show ?thesis by auto
qed




section \<open>Answers that are not numbers\<close>

text \<open>
  Claim C7, as it holds. For cleaned answers that differ, one of which does not parse as
  a float, \<open>grade_numerical\<close> returns a result and raises nothing: \<open>is_correct\<close> is
  false, the score 0, the difference \<open>None\<close>, and the explanation is
  \<open>Invalid numerical format: \<close> followed by the text of the conversion error, which is
  about the first cleaned answer that does not parse.
\<close>

theorem invalid_format_result:
  assumes ne: "cleaned student \<noteq> cleaned correct"
    and bad: "py_float (cleaned student) = None \<or> py_float (cleaned correct) = None"
  shows "grade_numerical self student correct range_sensitive tol answer_range
         = Inr \<lparr>is_correct = False, score_percentage = Fin 0,
                explanation = [Lit ''Invalid numerical format: '',
                               FExn (ValueError (if py_float (cleaned student) = None then cleaned student
                                                 else cleaned correct))],
                difference = None\<rparr>"
proof (cases "py_float (cleaned student)")
  case None
  then show ?thesis using ne
    by (simp add: grade_numerical_def grade_numerical_try_def Let_def bind_exn_def
          float_str_None invalid_format_def)
next
  case (Some sv)
  with bad have c: "py_float (cleaned correct) = None" by simp
  show ?thesis using ne Some
    by (simp add: grade_numerical_def grade_numerical_try_def Let_def bind_exn_def
          float_str_None[OF c] float_str_Some[OF Some] invalid_format_def)
qed

theorem invalid_format_result_witness:
  "grade_numerical (new_simulator None) ''abc'' ''1'' True (PNum (Fin 5)) None
     = Inr \<lparr>is_correct = False, score_percentage = Fin 0,
            explanation = [Lit ''Invalid numerical format: '', FExn (ValueError ''abc'')],
            difference = None\<rparr>"
proof -
  have n: "cleaned ''abc'' \<noteq> cleaned ''1''" by code_simp
  have p: "py_float (cleaned ''abc'') = None" by code_simp
  have c: "cleaned ''abc'' = ''abc''" by code_simp
  have b: "py_float (cleaned ''abc'') = None \<or> py_float (cleaned ''1'') = None" using p by simp
  from invalid_format_result[OF n b, of "new_simulator None" True "PNum (Fin 5)" None]
  show ?thesis using p c by simp
qed

text \<open>
  Claim C7 as stated fails in the explanation: it is not the bare text
  \<open>Invalid numerical format\<close>.
\<close>

theorem invalid_format_counterexample:
  "grade_numerical (new_simulator None) ''abc'' ''1'' False (PNum (Fin 0)) None
     \<noteq> Inr \<lparr>is_correct = False, score_percentage = Fin 0,
             explanation = [Lit ''Invalid numerical format''], difference = None\<rparr>"
  by code_simp

section \<open>One-word answers, exactly\<close>

text \<open>
  Claim C8. If either answer is the empty string, the result is the one for a missing
  answer. Otherwise the answer is correct exactly when the two strings are equal after
  \<open>strip\<close> and, unless \<open>case_sensitive\<close>, after \<open>lower\<close>.
\<close>

theorem grade_one_word_spec:
  "(student = [] \<or> correct = [] \<longrightarrow>
      grade_one_word self student correct case_sensitive
        = \<lparr>is_correct = False, score_percentage = Fin 0, explanation = [Lit ''Missing answer'']\<rparr>)
   \<and> (student \<noteq> [] \<and> correct \<noteq> [] \<longrightarrow>
      is_correct (grade_one_word self student correct case_sensitive)
        = ((if case_sensitive then strip student else lower (strip student))
           = (if case_sensitive then strip correct else lower (strip correct))))"
  by (simp add: grade_one_word_def Let_def)

theorem grade_one_word_spec_witness:
  "grade_one_word (new_simulator None) [] ''paris'' False
     = \<lparr>is_correct = False, score_percentage = Fin 0, explanation = [Lit ''Missing answer'']\<rparr>
   \<and> is_correct (grade_one_word (new_simulator None) '' Paris '' ''paris'' False)
   \<and> \<not> is_correct (grade_one_word (new_simulator None) ''Au'' ''au'' True)"
proof -
  have a: "lower (strip '' Paris '') = lower (strip ''paris'')" by code_simp
  have b: "strip ''Au'' \<noteq> strip ''au''" by code_simp
  from grade_one_word_spec[of "[]" "''paris''" "new_simulator None" False]
       grade_one_word_spec[of "'' Paris ''" "''paris''" "new_simulator None" False]
       grade_one_word_spec[of "''Au''" "''au''" "new_simulator None" True]
  show ?thesis using a b by simp
qed

section \<open>Failure of the chat service\<close>

text \<open>
  Claim C9. For non-empty answers, when the call of the chat service raises an exception,
  \<open>grade_short_phrase\<close> returns a result with \<open>is_correct\<close> false and confidence 0.
\<close>

theorem oracle_failure_fails_closed:
  assumes "student \<noteq> []" and "correct \<noteq> []"
    and "chat system_prompt (user_prompt student correct question_text) = Inl e"
  shows "is_correct (grade_short_phrase self chat student correct question_text threshold) = False
         \<and> confidence (grade_short_phrase self chat student correct question_text threshold) = Fin 0"
  using assms
  by (simp add: grade_short_phrase_def check_meaning_with_ollama_def bind_exn_def)

theorem oracle_failure_fails_closed_witness:
  "is_correct (grade_short_phrase (new_simulator None) (\<lambda>system user. Inl (OtherException ''timed out''))
       ''a cat'' ''a feline'' None (Fin (7 / 10))) = False
   \<and> confidence (grade_short_phrase (new_simulator None) (\<lambda>system user. Inl (OtherException ''timed out''))
       ''a cat'' ''a feline'' None (Fin (7 / 10))) = Fin 0"
  using oracle_failure_fails_closed[of "''a cat''" "''a feline''"
          "\<lambda>system user. Inl (OtherException ''timed out'')" None "OtherException ''timed out''"
          "new_simulator None" "Fin (7 / 10)"]
  by simp

section \<open>Determinism\<close>






end
